theory Spec2Isabelle
  imports Complex_Main
begin

section \<open>Numbers, points and faults\<close>

text \<open>
  The board (\<^verbatim>\<open>src/App.js\<close>, component \<^verbatim>\<open>LacrosseBoard\<close>) computes with
  JavaScript numbers. They are modelled as \<^typ>\<open>real\<close>: the arithmetic of the
  source is read as exact arithmetic, rounding is not modelled.

  HOL's division is total (\<open>x / 0 = 0\<close>), JavaScript's yields \<open>NaN\<close> or an infinity.
  So that a division by zero is visible in the model, every division of the source whose
  divisor is a variable goes through \<open>js_div\<close>, which reports the fault instead of a
  number. The canvas call \<^verbatim>\<open>ctx.arc\<close> throws on a negative radius, and spreading
  a missing \<^verbatim>\<open>points\<close> field throws a type error; both are faults as well.
\<close>

datatype fault = DivisionByZero | IndexSizeError | TypeError

definition js_div :: "real \<Rightarrow> real \<Rightarrow> fault + real" where
  "js_div a b = (if b = 0 then Inl DivisionByZero else Inr (a / b))"

text \<open>A point object \<^verbatim>\<open>{x, y}\<close>.\<close>

datatype point = Point (px: real) (py: real)

section \<open>Elements\<close>

text \<open>
  An element object carries a \<^verbatim>\<open>type\<close> string, an \<^verbatim>\<open>id\<close>, a
  \<^verbatim>\<open>color\<close> and the fields of its kind. \<^verbatim>\<open>handleStart\<close> is the only place
  that creates elements, and it creates exactly four kinds:
  \<^verbatim>\<open>{type:'player', id, x, y, radius, color}\<close>,
  \<^verbatim>\<open>{type:'circle'|'line', id, sx, sy, ex, ey, color}\<close> and
  \<^verbatim>\<open>{type:'freehand', id, points, color}\<close>.
  The trailing \<^verbatim>\<open>return false\<close> / \<^verbatim>\<open>return el\<close> of the functions that dispatch
  on \<^verbatim>\<open>type\<close> is therefore never reached and has no branch here.
\<close>

type_synonym ident = string

datatype element =
    Player (eid: ident) real real real (ecolor: string)
  | Circle (eid: ident) real real real real (ecolor: string)
  | Line (eid: ident) real real real real (ecolor: string)
  | Freehand (eid: ident) "point list" (ecolor: string)

section \<open>Geometry and hit testing\<close>

text \<open>\<^verbatim>\<open>const distance = (a, b) => Math.sqrt(Math.pow(a.x - b.x, 2) + Math.pow(a.y - b.y, 2))\<close>\<close>

definition distance :: "point \<Rightarrow> point \<Rightarrow> real" where
  "distance a b = sqrt ((px a - px b)\<^sup>2 + (py a - py b)\<^sup>2)"

text \<open>
  \<^verbatim>\<open>pointToLineDistance(point, start, end)\<close>. The only division, \<^verbatim>\<open>dot / lenSq\<close>,
  stands under the guard \<^verbatim>\<open>if (lenSq !== 0)\<close>; \<^verbatim>\<open>param\<close> starts at \<open>-1\<close>.
\<close>

definition pointToLineDistance :: "point \<Rightarrow> point \<Rightarrow> point \<Rightarrow> fault + real" where
  "pointToLineDistance point start end' =
    (let A = px point - px start;
         B = py point - py start;
         C = px end' - px start;
         D = py end' - py start;
         dot = A * C + B * D;
         lenSq = C * C + D * D
     in case (if lenSq \<noteq> 0 then js_div dot lenSq else Inr (- 1)) of
          Inl f \<Rightarrow> Inl f
        | Inr param \<Rightarrow>
            (case (if param < 0 then (px start, py start)
                   else if param > 1 then (px end', py end')
                   else (px start + param * C, py start + param * D)) of
               (xx, yy) \<Rightarrow>
                 (let dx = px point - xx;
                      dy = py point - yy
                  in Inr (sqrt (dx * dx + dy * dy)))))"

text \<open>
  \<^verbatim>\<open>isHit(element, x, y)\<close>, with \<^verbatim>\<open>threshold = 10\<close>. A faulting distance would be
  \<open>NaN\<close> in the source, and \<^verbatim>\<open>NaN < threshold\<close> is false.
\<close>

definition threshold :: real where
  "threshold = 10"

fun isHit :: "element \<Rightarrow> real \<Rightarrow> real \<Rightarrow> bool" where
  "isHit (Player i x0 y0 radius c) x y =
     (let dist = distance (Point x y) (Point x0 y0) in dist \<le> radius + 5)"
| "isHit (Circle i sx sy ex ey c) x y =
     (let dist = distance (Point x y) (Point sx sy);
          r = max (distance (Point sx sy) (Point ex ey)) 10
      in dist \<le> r)"
| "isHit (Line i sx sy ex ey c) x y =
     (case pointToLineDistance (Point x y) (Point sx sy) (Point ex ey) of
        Inl f \<Rightarrow> False
      | Inr d \<Rightarrow> d < threshold)"
| "isHit (Freehand i points c) x y =
     list_ex (\<lambda>p. distance (Point x y) p < threshold) points"

text \<open>
  \<^verbatim>\<open>getElementAtPosition(x, y)\<close>: the loop
  \<^verbatim>\<open>for (let i = elements.length - 1; i >= 0; i--)\<close> over the committed elements.
  \<open>scanFrom els n\<close> is the loop with \<open>i = n - 1\<close> still to be visited; it is only
  entered with \<open>n \<le> length els\<close>.
\<close>

fun scanFrom :: "element list \<Rightarrow> nat \<Rightarrow> real \<Rightarrow> real \<Rightarrow> element option" where
  "scanFrom els 0 x y = None"
| "scanFrom els (Suc i) x y =
     (if isHit (els ! i) x y then Some (els ! i) else scanFrom els i x y)"

definition getElementAtPosition :: "element list \<Rightarrow> real \<Rightarrow> real \<Rightarrow> element option" where
  "getElementAtPosition els x y = scanFrom els (length els) x y"

text \<open>
  \<^verbatim>\<open>isElementInRect(element, rect)\<close> with \<^verbatim>\<open>rect = {x, y, w, h}\<close>.
\<close>

datatype rect = Rect (rx: real) (ry: real) (rw: real) (rh: real)

definition inBox :: "rect \<Rightarrow> real \<Rightarrow> real \<Rightarrow> bool" where
  "inBox r qx qy = (qx \<ge> rx r \<and> qx \<le> rx r + rw r \<and> qy \<ge> ry r \<and> qy \<le> ry r + rh r)"

fun isElementInRect :: "element \<Rightarrow> rect \<Rightarrow> bool" where
  "isElementInRect (Player i x0 y0 radius c) r = inBox r x0 y0"
| "isElementInRect (Line i sx sy ex ey c) r =
     (let sIn = inBox r sx sy; eIn = inBox r ex ey in sIn \<or> eIn)"
| "isElementInRect (Circle i sx sy ex ey c) r =
     (let sIn = inBox r sx sy; eIn = inBox r ex ey in sIn \<or> eIn)"
| "isElementInRect (Freehand i points c) r = list_ex (\<lambda>p. inBox r (px p) (py p)) points"

section \<open>Board state\<close>

text \<open>
  The state variables of the component (\<^verbatim>\<open>useState\<close>), as one record. A handler
  reads the values of the last render and queues its updates; the model applies the
  updates of one handler at once, one event after the other.
\<close>

datatype tool = ToolPlayer | ToolCircle | ToolLine | ToolFreehand | ToolInteract | ToolEraser

datatype view_mode = FullView | HalfView

record selection_box =
  startX :: real
  startY :: real
  currentX :: real
  currentY :: real

record board =
  tool :: tool
  viewMode :: view_mode
  color :: string
  elements :: "element list"
  isDrawing :: bool
  currentElement :: "element option"
  showClearConfirm :: bool
  selectedElementIds :: "ident list"
  dragLastPos :: "point option"
  selectionBox :: "selection_box option"

definition initial :: board where
  "initial = \<lparr> tool = ToolPlayer, viewMode = FullView, color = ''#ef4444'', elements = [],
     isDrawing = False, currentElement = None, showClearConfirm = False,
     selectedElementIds = [], dragLastPos = None, selectionBox = None \<rparr>"

section \<open>Event handlers\<close>

text \<open>
  \<^verbatim>\<open>handleStart(e)\<close>. The pointer position \<^verbatim>\<open>getPos(e)\<close> is the argument
  \<open>(x, y)\<close>; the result of \<^verbatim>\<open>generateId()\<close> (clock and random number) is the
  argument \<open>newId\<close>, which only the drawing tools use.
\<close>

definition handleStart :: "board \<Rightarrow> real \<Rightarrow> real \<Rightarrow> ident \<Rightarrow> board" where
  "handleStart s x y newId =
    (let s1 = s\<lparr> isDrawing := True \<rparr> in
     if tool s = ToolInteract then
       (case getElementAtPosition (elements s) x y of
          Some hit \<Rightarrow>
            s1\<lparr> selectedElementIds :=
                   (if eid hit \<notin> set (selectedElementIds s) then [eid hit]
                    else selectedElementIds s),
                 dragLastPos := Some (Point x y),
                 selectionBox := None \<rparr>
        | None \<Rightarrow>
            s1\<lparr> selectedElementIds := [],
                 selectionBox := Some \<lparr> startX = x, startY = y, currentX = x, currentY = y \<rparr>,
                 dragLastPos := None \<rparr>)
     else if tool s = ToolEraser then
       (case getElementAtPosition (elements s) x y of
          Some hit \<Rightarrow> s1\<lparr> elements := filter (\<lambda>el. eid el \<noteq> eid hit) (elements s) \<rparr>
        | None \<Rightarrow> s1)
     else if tool s = ToolPlayer then
       s1\<lparr> elements := elements s @ [Player newId x y 8 (color s)], isDrawing := False \<rparr>
     else if tool s = ToolFreehand then
       s1\<lparr> currentElement := Some (Freehand newId [Point x y] (color s)) \<rparr>
     else if tool s = ToolLine then
       s1\<lparr> currentElement := Some (Line newId x y x y (color s)) \<rparr>
     else
       s1\<lparr> currentElement := Some (Circle newId x y x y (color s)) \<rparr>)"

text \<open>
  The group drag of \<^verbatim>\<open>handleMove\<close>: the function mapped over the elements,
  \<^verbatim>\<open>el => { if (!selectedElementIds.includes(el.id)) return el; ... }\<close>.
\<close>

fun translate :: "real \<Rightarrow> real \<Rightarrow> element \<Rightarrow> element" where
  "translate dx dy (Player i x0 y0 radius c) = Player i (x0 + dx) (y0 + dy) radius c"
| "translate dx dy (Line i sx sy ex ey c) = Line i (sx + dx) (sy + dy) (ex + dx) (ey + dy) c"
| "translate dx dy (Circle i sx sy ex ey c) = Circle i (sx + dx) (sy + dy) (ex + dx) (ey + dy) c"
| "translate dx dy (Freehand i points c) =
     Freehand i (map (\<lambda>p. Point (px p + dx) (py p + dy)) points) c"

definition dragElement :: "ident list \<Rightarrow> real \<Rightarrow> real \<Rightarrow> element \<Rightarrow> element" where
  "dragElement sel dx dy el = (if eid el \<notin> set sel then el else translate dx dy el)"

text \<open>
  The update \<^verbatim>\<open>prev => ({...prev, ex: x, ey: y})\<close> of the element in progress. On a
  line or a zone it moves the end point. On an object without these fields it adds two
  fields that no function reads for that \<^verbatim>\<open>type\<close>, so the element is unchanged.
\<close>

fun setEnd :: "element \<Rightarrow> real \<Rightarrow> real \<Rightarrow> element" where
  "setEnd (Line i sx sy ex ey c) x y = Line i sx sy x y c"
| "setEnd (Circle i sx sy ex ey c) x y = Circle i sx sy x y c"
| "setEnd (Player i x0 y0 radius c) x y = Player i x0 y0 radius c"
| "setEnd (Freehand i points c) x y = Freehand i points c"

text \<open>
  The update \<^verbatim>\<open>prev => ({...prev, points: [...prev.points, {x, y}]})\<close>: spreading
  \<^verbatim>\<open>prev.points\<close> throws a type error when the element in progress has no such field.
\<close>

fun addPoint :: "element \<Rightarrow> real \<Rightarrow> real \<Rightarrow> fault + element" where
  "addPoint (Freehand i points c) x y = Inr (Freehand i (points @ [Point x y]) c)"
| "addPoint (Line i sx sy ex ey c) x y = Inl TypeError"
| "addPoint (Circle i sx sy ex ey c) x y = Inl TypeError"
| "addPoint (Player i x0 y0 radius c) x y = Inl TypeError"

text \<open>\<^verbatim>\<open>handleMove(e)\<close>.\<close>

definition handleMove :: "board \<Rightarrow> real \<Rightarrow> real \<Rightarrow> fault + board" where
  "handleMove s x y =
    (if \<not> isDrawing s \<and> tool s \<noteq> ToolInteract then Inr s
     else if tool s = ToolEraser \<and> isDrawing s then
       (case getElementAtPosition (elements s) x y of
          Some hit \<Rightarrow> Inr (s\<lparr> elements := filter (\<lambda>el. eid el \<noteq> eid hit) (elements s) \<rparr>)
        | None \<Rightarrow> Inr s)
     else if tool s = ToolInteract \<and> isDrawing s then
       (case selectionBox s of
          Some box \<Rightarrow> Inr (s\<lparr> selectionBox := Some (box\<lparr> currentX := x, currentY := y \<rparr>) \<rparr>)
        | None \<Rightarrow>
            (case dragLastPos s of
               Some lastPos \<Rightarrow>
                 if length (selectedElementIds s) > 0 then
                   (let dx = x - px lastPos; dy = y - py lastPos in
                    Inr (s\<lparr> elements := map (dragElement (selectedElementIds s) dx dy) (elements s),
                            dragLastPos := Some (Point x y) \<rparr>))
                 else Inr s
             | None \<Rightarrow> Inr s))
     else
       (case currentElement s of
          None \<Rightarrow> Inr s
        | Some cur \<Rightarrow>
            if tool s = ToolFreehand then
              (case addPoint cur x y of
                 Inl f \<Rightarrow> Inl f
               | Inr cur' \<Rightarrow> Inr (s\<lparr> currentElement := Some cur' \<rparr>))
            else Inr (s\<lparr> currentElement := Some (setEnd cur x y) \<rparr>)))"

text \<open>\<^verbatim>\<open>handleEnd()\<close>.\<close>

definition handleEnd :: "board \<Rightarrow> board" where
  "handleEnd s =
    (let s1 = s\<lparr> isDrawing := False \<rparr>;
         s2 = (if tool s = ToolInteract then
                 (case selectionBox s of
                    Some box \<Rightarrow>
                      (let x1 = min (startX box) (currentX box);
                           y1 = min (startY box) (currentY box);
                           w = \<bar>currentX box - startX box\<bar>;
                           h = \<bar>currentY box - startY box\<bar>;
                           r = Rect x1 y1 w h;
                           newlySelected = map eid (filter (\<lambda>el. isElementInRect el r) (elements s))
                       in s1\<lparr> selectedElementIds := newlySelected, selectionBox := None \<rparr>)
                  | None \<Rightarrow> s1) \<lparr> dragLastPos := None \<rparr>
               else s1)
     in case currentElement s of
          Some cur \<Rightarrow> s2\<lparr> elements := elements s @ [cur], currentElement := None \<rparr>
        | None \<Rightarrow> s2)"

text \<open>The toolbar handlers. \<^verbatim>\<open>prev.slice(0, -1)\<close> drops the last element, if any.\<close>

definition handleClearTrigger :: "board \<Rightarrow> board" where
  "handleClearTrigger s = s\<lparr> showClearConfirm := True \<rparr>"

definition handleConfirmClear :: "board \<Rightarrow> board" where
  "handleConfirmClear s =
     s\<lparr> elements := [], currentElement := None, selectedElementIds := [],
        showClearConfirm := False \<rparr>"

definition handleCancelClear :: "board \<Rightarrow> board" where
  "handleCancelClear s = s\<lparr> showClearConfirm := False \<rparr>"

definition handleUndo :: "board \<Rightarrow> board" where
  "handleUndo s = s\<lparr> elements := butlast (elements s) \<rparr>"

text \<open>
  The events of the component and the state they lead to. A pointer move whose update
  throws has no successor state.
\<close>

datatype event =
    PointerDown real real ident
  | PointerMove real real
  | PointerUp
  | Undo
  | ClearTrigger
  | ConfirmClear
  | CancelClear
  | SetTool tool
  | SetViewMode view_mode
  | SetColor string

fun step :: "board \<Rightarrow> event \<Rightarrow> fault + board" where
  "step s (PointerDown x y newId) = Inr (handleStart s x y newId)"
| "step s (PointerMove x y) = handleMove s x y"
| "step s PointerUp = Inr (handleEnd s)"
| "step s Undo = Inr (handleUndo s)"
| "step s ClearTrigger = Inr (handleClearTrigger s)"
| "step s ConfirmClear = Inr (handleConfirmClear s)"
| "step s CancelClear = Inr (handleCancelClear s)"
| "step s (SetTool t) = Inr (s\<lparr> tool := t \<rparr>)"
| "step s (SetViewMode v) = Inr (s\<lparr> viewMode := v \<rparr>)"
| "step s (SetColor c) = Inr (s\<lparr> color := c \<rparr>)"

fun steps :: "board \<Rightarrow> event list \<Rightarrow> fault + board" where
  "steps s [] = Inr s"
| "steps s (ev # evs) = (case step s ev of Inl f \<Rightarrow> Inl f | Inr s' \<Rightarrow> steps s' evs)"

inductive reachable :: "board \<Rightarrow> bool" where
  reachable_initial: "reachable initial"
| reachable_step: "reachable s \<Longrightarrow> step s ev = Inr s' \<Longrightarrow> reachable s'"

section \<open>Rendering\<close>

text \<open>
  The 2D context is modelled by the sequence of the calls and property assignments made
  on it, in the order the source makes them. A drawing function takes the sequence so far
  and returns the extended one, or the fault that aborts it.
\<close>

datatype cmd =
    SetFillStyle string
  | SetStrokeStyle string
  | SetLineWidth real
  | SetLineCap string
  | SetLineJoin string
  | SetLineDash "real list"
  | BeginPath
  | MoveTo real real
  | LineTo real real
  | Arc real real real real real
  | Stroke
  | Fill
  | FillRect real real real real
  | StrokeRect real real real real

type_synonym canvas = "cmd list"

definition emit :: "cmd \<Rightarrow> canvas \<Rightarrow> fault + canvas" where
  "emit c ctx = Inr (ctx @ [c])"

text \<open>\<^verbatim>\<open>ctx.arc(x, y, radius, startAngle, endAngle)\<close> throws on a negative radius.\<close>

definition arc :: "real \<Rightarrow> real \<Rightarrow> real \<Rightarrow> real \<Rightarrow> real \<Rightarrow> canvas \<Rightarrow> fault + canvas" where
  "arc cx cy r a0 a1 ctx = (if r < 0 then Inl IndexSizeError else Inr (ctx @ [Arc cx cy r a0 a1]))"

text \<open>Statements in sequence: the first fault ends the function.\<close>

fun runCmds :: "(canvas \<Rightarrow> fault + canvas) list \<Rightarrow> canvas \<Rightarrow> fault + canvas" where
  "runCmds [] ctx = Inr ctx"
| "runCmds (f # fs) ctx = (case f ctx of Inl e \<Rightarrow> Inl e | Inr ctx' \<Rightarrow> runCmds fs ctx')"

definition FIELD_COLOR :: string where
  "FIELD_COLOR = ''#ffffff''"

definition LINE_COLOR :: string where
  "LINE_COLOR = ''#000000''"

text \<open>\<^verbatim>\<open>drawFullField(ctx, x, y, w, h, scale)\<close>.\<close>

definition drawFullField ::
  "real \<Rightarrow> real \<Rightarrow> real \<Rightarrow> real \<Rightarrow> real \<Rightarrow> canvas \<Rightarrow> fault + canvas" where
  "drawFullField x y w h scale =
    (let xSize = 2 * scale;
         restrainDist = 35 * scale;
         goalDist = 15 * scale;
         creaseRadius = max 0 (3 * scale);
         leftGoalX = x + goalDist;
         centerY = y + h / 2;
         rightGoalX = x + w - goalDist;
         wingDist = 10 * scale;
         wingLen = 10 * scale;
         alleyDist = 10 * scale
     in runCmds [
       emit (StrokeRect x y w h),
       emit BeginPath,
       emit (MoveTo (x + w / 2) y),
       emit (LineTo (x + w / 2) (y + h)),
       emit Stroke,
       emit BeginPath,
       arc (x + w / 2) (y + h / 2) (max 0 (5 * scale)) 0 (pi * 2),
       emit Stroke,
       emit BeginPath,
       emit (MoveTo (x + w / 2 - xSize) (y + h / 2 - xSize)),
       emit (LineTo (x + w / 2 + xSize) (y + h / 2 + xSize)),
       emit (MoveTo (x + w / 2 + xSize) (y + h / 2 - xSize)),
       emit (LineTo (x + w / 2 - xSize) (y + h / 2 + xSize)),
       emit Stroke,
       emit BeginPath,
       emit (MoveTo (x + restrainDist) y),
       emit (LineTo (x + restrainDist) (y + h)),
       emit Stroke,
       emit BeginPath,
       emit (MoveTo (x + w - restrainDist) y),
       emit (LineTo (x + w - restrainDist) (y + h)),
       emit Stroke,
       emit BeginPath,
       arc leftGoalX centerY creaseRadius 0 (pi * 2),
       emit (SetFillStyle ''#e5e7eb''),
       emit Fill,
       emit Stroke,
       emit (SetFillStyle LINE_COLOR),
       emit (FillRect leftGoalX (centerY - (3 * scale)) 2 (6 * scale)),
       emit BeginPath,
       arc rightGoalX centerY creaseRadius 0 (pi * 2),
       emit (SetFillStyle ''#e5e7eb''),
       emit Fill,
       emit Stroke,
       emit (FillRect rightGoalX (centerY - (3 * scale)) 2 (6 * scale)),
       emit BeginPath,
       emit (MoveTo (x + w / 2 - wingLen) (y + wingDist)),
       emit (LineTo (x + w / 2 + wingLen) (y + wingDist)),
       emit Stroke,
       emit BeginPath,
       emit (MoveTo (x + w / 2 - wingLen) (y + h - wingDist)),
       emit (LineTo (x + w / 2 + wingLen) (y + h - wingDist)),
       emit Stroke,
       emit (SetLineDash [5, 5]),
       emit BeginPath,
       emit (MoveTo x (y + alleyDist)),
       emit (LineTo (x + restrainDist) (y + alleyDist)),
       emit Stroke,
       emit BeginPath,
       emit (MoveTo x (y + h - alleyDist)),
       emit (LineTo (x + restrainDist) (y + h - alleyDist)),
       emit Stroke,
       emit BeginPath,
       emit (MoveTo (x + w) (y + alleyDist)),
       emit (LineTo (x + w - restrainDist) (y + alleyDist)),
       emit Stroke,
       emit BeginPath,
       emit (MoveTo (x + w) (y + h - alleyDist)),
       emit (LineTo (x + w - restrainDist) (y + h - alleyDist)),
       emit Stroke,
       emit (SetLineDash [])
     ])"

text \<open>
  \<^verbatim>\<open>drawHalfField(ctx, x, y, w, h, scale)\<close>, with its helper
  \<^verbatim>\<open>toCanvasY = (yardsY) => y + h - (yardsY * scale)\<close> (\<^verbatim>\<open>toCanvasX\<close> is not called).
\<close>

definition drawHalfField ::
  "real \<Rightarrow> real \<Rightarrow> real \<Rightarrow> real \<Rightarrow> real \<Rightarrow> canvas \<Rightarrow> fault + canvas" where
  "drawHalfField x y w h scale =
    (let toCanvasY = (\<lambda>yardsY. y + h - (yardsY * scale));
         creaseRadius = max 0 (3 * scale);
         goalY = toCanvasY 15;
         centerX = x + w / 2;
         xSize = 2 * scale;
         midY = toCanvasY 55;
         alleyDist = 10 * scale
     in runCmds [
       emit (StrokeRect x y w h),
       emit BeginPath,
       emit (MoveTo x (toCanvasY 55)),
       emit (LineTo (x + w) (toCanvasY 55)),
       emit Stroke,
       emit BeginPath,
       emit (MoveTo x (toCanvasY 35)),
       emit (LineTo (x + w) (toCanvasY 35)),
       emit Stroke,
       emit BeginPath,
       arc centerX goalY creaseRadius 0 (pi * 2),
       emit (SetFillStyle ''#e5e7eb''),
       emit Fill,
       emit Stroke,
       emit (SetFillStyle LINE_COLOR),
       emit (FillRect (centerX - (3 * scale)) goalY (6 * scale) 2),
       emit BeginPath,
       arc centerX (toCanvasY 55) (max 0 (5 * scale)) 0 (pi * 2),
       emit Stroke,
       emit BeginPath,
       emit (MoveTo (centerX - xSize) (midY - xSize)),
       emit (LineTo (centerX + xSize) (midY + xSize)),
       emit (MoveTo (centerX + xSize) (midY - xSize)),
       emit (LineTo (centerX - xSize) (midY + xSize)),
       emit Stroke,
       emit (SetLineDash [5, 5]),
       emit BeginPath,
       emit (MoveTo (x + alleyDist) (toCanvasY 0)),
       emit (LineTo (x + alleyDist) (toCanvasY 35)),
       emit Stroke,
       emit BeginPath,
       emit (MoveTo (x + w - alleyDist) (toCanvasY 0)),
       emit (LineTo (x + w - alleyDist) (toCanvasY 35)),
       emit Stroke,
       emit (SetLineDash []),
       emit BeginPath,
       emit (MoveTo (x + alleyDist) (toCanvasY 45)),
       emit (LineTo (x + alleyDist) (toCanvasY 65)),
       emit Stroke,
       emit BeginPath,
       emit (MoveTo (x + w - alleyDist) (toCanvasY 45)),
       emit (LineTo (x + w - alleyDist) (toCanvasY 65)),
       emit Stroke
     ])"

text \<open>
  The layout computed by \<^verbatim>\<open>drawField\<close> after its safety check: the rectangle
  \<open>(x, y, w, h)\<close> of the field. \<^verbatim>\<open>drawWidth / drawHeight\<close> and \<^verbatim>\<open>w / fieldRatio\<close>
  divide by variables.
\<close>

definition fieldLayout :: "view_mode \<Rightarrow> real \<Rightarrow> real \<Rightarrow> fault + (real \<times> real \<times> real \<times> real)" where
  "fieldLayout vm width height =
    (let padding = 30;
         drawWidth = width - (padding * 2);
         drawHeight = height - (padding * 2);
         fieldRatio = (if vm = FullView then 110 / 60 else 60 / 65)
     in case js_div drawWidth drawHeight of
          Inl f \<Rightarrow> Inl f
        | Inr canvasRatio \<Rightarrow>
            if canvasRatio > fieldRatio then
              (let h = drawHeight; w = h * fieldRatio; y = padding; x = (width - w) / 2
               in Inr (x, y, w, h))
            else
              (let w = drawWidth in
               case js_div w fieldRatio of
                 Inl f \<Rightarrow> Inl f
               | Inr h \<Rightarrow> (let x = padding; y = (height - h) / 2 in Inr (x, y, w, h))))"

text \<open>\<^verbatim>\<open>drawField(ctx, width, height)\<close>; \<^verbatim>\<open>viewMode\<close> is the state variable.\<close>

definition drawField :: "view_mode \<Rightarrow> real \<Rightarrow> real \<Rightarrow> canvas \<Rightarrow> fault + canvas" where
  "drawField vm width height ctx =
    (let padding = 30 in
     if width \<le> padding * 2 \<or> height \<le> padding * 2 then
       runCmds [emit (SetFillStyle FIELD_COLOR), emit (FillRect 0 0 width height)] ctx
     else
       case runCmds [emit (SetFillStyle FIELD_COLOR), emit (FillRect 0 0 width height),
                     emit (SetStrokeStyle LINE_COLOR), emit (SetLineWidth 2),
                     emit (SetLineCap ''round'')] ctx of
         Inl f \<Rightarrow> Inl f
       | Inr ctx1 \<Rightarrow>
           (case fieldLayout vm width height of
              Inl f \<Rightarrow> Inl f
            | Inr (x, y, w, h) \<Rightarrow>
                (let scale = (if vm = FullView then w / 110 else w / 60) in
                 if vm = FullView then drawFullField x y w h scale ctx1
                 else drawHalfField x y w h scale ctx1)))"

text \<open>
  \<^verbatim>\<open>Math.atan2(y, x)\<close> on real numbers; the quotient is taken only where \<open>x \<noteq> 0\<close>.
\<close>

definition atan2 :: "real \<Rightarrow> real \<Rightarrow> real" where
  "atan2 y x =
    (if x > 0 then arctan (y / x)
     else if x < 0 \<and> y \<ge> 0 then arctan (y / x) + pi
     else if x < 0 then arctan (y / x) - pi
     else if y > 0 then pi / 2
     else if y < 0 then - (pi / 2)
     else 0)"

text \<open>
  \<^verbatim>\<open>drawElement(ctx, element)\<close>; \<open>sel\<close> is the state variable
  \<^verbatim>\<open>selectedElementIds\<close>. \<^verbatim>\<open>element.color + '20'\<close> appends to the colour string.
\<close>

text \<open>
  \<open>selectionStroke\<close> is the highlight that the zone, line and freehand branches each end
  with: \<^verbatim>\<open>if (selectedElementIds.includes(element.id)) { ctx.strokeStyle = '#22c55e';
  ctx.lineWidth = 2; ctx.stroke(); }\<close>.
\<close>

definition selectionStroke :: "ident list \<Rightarrow> ident \<Rightarrow> (canvas \<Rightarrow> fault + canvas) list" where
  "selectionStroke sel i =
    (if i \<in> set sel then [emit (SetStrokeStyle ''#22c55e''), emit (SetLineWidth 2), emit Stroke]
     else [])"

fun drawElement :: "ident list \<Rightarrow> element \<Rightarrow> canvas \<Rightarrow> fault + canvas" where
  "drawElement sel (Player i x0 y0 radius0 c) =
    (let safeRadius = max 1 radius0 in
     runCmds ([
       emit (SetStrokeStyle c), emit (SetLineWidth 3), emit (SetLineCap ''round''),
       emit (SetLineJoin ''round''),
       emit BeginPath,
       arc x0 y0 safeRadius 0 (pi * 2),
       emit (SetFillStyle c),
       emit Fill,
       emit Stroke]
       @ (if i \<in> set sel then [
            emit (SetStrokeStyle ''#22c55e''),
            emit (SetLineWidth 2),
            emit Stroke,
            emit BeginPath,
            arc x0 y0 (safeRadius + 4) 0 (pi * 2),
            emit (SetStrokeStyle ''#22c55e''),
            emit (SetLineWidth 1),
            emit (SetLineDash [2, 2]),
            emit Stroke,
            emit (SetLineDash [])]
          else [])))"
| "drawElement sel (Circle i sx sy ex ey c) =
    (let radius = max (distance (Point sx sy) (Point ex ey)) 10 in
     runCmds ([
       emit (SetStrokeStyle c), emit (SetLineWidth 3), emit (SetLineCap ''round''),
       emit (SetLineJoin ''round''),
       emit BeginPath,
       arc sx sy radius 0 (pi * 2),
       emit (SetFillStyle (c @ ''20'')),
       emit Fill,
       emit Stroke,
       emit BeginPath,
       arc sx sy 2 0 (pi * 2),
       emit (SetFillStyle c),
       emit Fill]
       @ selectionStroke sel i))"
| "drawElement sel (Line i sx sy ex ey c) =
    (let headLen = 12;
         dx = ex - sx;
         dy = ey - sy;
         angle = atan2 dy dx
     in runCmds ([
       emit (SetStrokeStyle c), emit (SetLineWidth 3), emit (SetLineCap ''round''),
       emit (SetLineJoin ''round''),
       emit BeginPath,
       emit (MoveTo sx sy),
       emit (LineTo ex ey),
       emit Stroke,
       emit BeginPath,
       emit (MoveTo ex ey),
       emit (LineTo (ex - headLen * cos (angle - pi / 6)) (ey - headLen * sin (angle - pi / 6))),
       emit (MoveTo ex ey),
       emit (LineTo (ex - headLen * cos (angle + pi / 6)) (ey - headLen * sin (angle + pi / 6))),
       emit Stroke]
       @ selectionStroke sel i))"
| "drawElement sel (Freehand i points c) =
    (if length points < 2 then
       runCmds [emit (SetStrokeStyle c), emit (SetLineWidth 3), emit (SetLineCap ''round''),
                emit (SetLineJoin ''round'')]
     else
       runCmds ([
         emit (SetStrokeStyle c), emit (SetLineWidth 3), emit (SetLineCap ''round''),
         emit (SetLineJoin ''round''),
         emit BeginPath,
         emit (MoveTo (px (points ! 0)) (py (points ! 0)))]
         @ map (\<lambda>p. emit (LineTo (px p) (py p))) (tl points)
         @ [emit Stroke]
         @ selectionStroke sel i))"

section \<open>Notions of the specification\<close>

text \<open>
  The specification speaks of the distance from a point to a segment. The points of the
  segment from \<open>s\<close> to \<open>e\<close> are \<open>segmentPoint s e t\<close> for \<open>0 \<le> t \<le> 1\<close>.
\<close>

definition segmentPoint :: "point \<Rightarrow> point \<Rightarrow> real \<Rightarrow> point" where
  "segmentPoint s e t = Point (px s + t * (px e - px s)) (py s + t * (py e - py s))"

text \<open>
  The invariant of the specification on the selection set: every selected id is the id of
  an element of the sequence.
\<close>

definition selection_valid :: "board \<Rightarrow> bool" where
  "selection_valid s = (set (selectedElementIds s) \<subseteq> eid ` set (elements s))"

text \<open>
  The events that take elements out of the sequence one at a time: undo, and a pointer
  down or a pointer move while the eraser is the tool.
\<close>

fun removesElement :: "board \<Rightarrow> event \<Rightarrow> bool" where
  "removesElement s Undo = True"
| "removesElement s (PointerDown x y newId) = (tool s = ToolEraser)"
| "removesElement s (PointerMove x y) = (tool s = ToolEraser)"
| "removesElement s ev = False"

text \<open>The rectangles stroked on a canvas, in order: \<open>(x, y, w, h)\<close> of each \<^verbatim>\<open>strokeRect\<close>.\<close>

definition strokeRects :: "canvas \<Rightarrow> (real \<times> real \<times> real \<times> real) list" where
  "strokeRects ctx =
     concat (map (\<lambda>c. case c of StrokeRect x y w h \<Rightarrow> [(x, y, w, h)] | _ \<Rightarrow> []) ctx)"

section \<open>Hit testing\<close>

subsection \<open>The scan of \<open>getElementAtPosition\<close>\<close>

lemma scanFrom_None:
  "(scanFrom els n x y = None) = (\<forall>j<n. \<not> isHit (els ! j) x y)"
  by (induction n) (auto simp: less_Suc_eq)

lemma scanFrom_Some:
  "scanFrom els n x y = Some e \<Longrightarrow>
     \<exists>i<n. e = els ! i \<and> isHit (els ! i) x y \<and> (\<forall>j. i < j \<and> j < n \<longrightarrow> \<not> isHit (els ! j) x y)"
proof (induction n)
  case 0
  then show ?case by simp
next
  case (Suc n)
  show ?case
  proof (cases "isHit (els ! n) x y")
    case True
    with Suc.prems have "e = els ! n" by simp
    with True show ?thesis by (intro exI[of _ n]) auto
  next
    case False
    with Suc.prems have "scanFrom els n x y = Some e" by simp
    from Suc.IH[OF this] obtain i where i: "i < n" "e = els ! i" "isHit (els ! i) x y"
      "\<forall>j. i < j \<and> j < n \<longrightarrow> \<not> isHit (els ! j) x y" by blast
    with False show ?thesis by (intro exI[of _ i]) (auto simp: less_Suc_eq)
  qed
qed

lemma scanFrom_find:
  "n \<le> length els \<Longrightarrow> scanFrom els n x y = find (\<lambda>e. isHit e x y) (rev (take n els))"
  by (induction n) (auto simp: take_Suc_conv_app_nth)

lemma scanFrom_mem: "n \<le> length els \<Longrightarrow> scanFrom els n x y = Some e \<Longrightarrow> e \<in> set els"
  by (induction n) (auto split: if_splits)

lemma getElementAtPosition_mem: "getElementAtPosition els x y = Some e \<Longrightarrow> e \<in> set els"
  unfolding getElementAtPosition_def by (rule scanFrom_mem) auto

text \<open>
  \<^bold>\<open>C4.\<close> \<open>getElementAtPosition\<close> scans the sequence from the last-inserted element
  backward and returns the first element that is hit, or none when no element is hit:
  it is the first hit of the reversed sequence; it is none exactly when no index is hit;
  and an element it returns stands at an index that is hit, with no hit at any later
  index, so among several hit elements the latest in insertion order wins.
\<close>

theorem getElementAtPosition_topmost:
  "getElementAtPosition els x y = find (\<lambda>e. isHit e x y) (rev els)
   \<and> ((getElementAtPosition els x y = None) = (\<forall>j<length els. \<not> isHit (els ! j) x y))
   \<and> (\<forall>e. getElementAtPosition els x y = Some e \<longrightarrow>
         (\<exists>i<length els. e = els ! i \<and> isHit e x y
            \<and> (\<forall>j. i < j \<and> j < length els \<longrightarrow> \<not> isHit (els ! j) x y)))"
proof (intro conjI allI impI)
  show "getElementAtPosition els x y = find (\<lambda>e. isHit e x y) (rev els)"
    by (simp add: getElementAtPosition_def scanFrom_find)
  show "(getElementAtPosition els x y = None) = (\<forall>j<length els. \<not> isHit (els ! j) x y)"
    by (simp add: getElementAtPosition_def scanFrom_None)
next
  fix e assume "getElementAtPosition els x y = Some e"
  then have "scanFrom els (length els) x y = Some e"
    by (simp add: getElementAtPosition_def)
  from scanFrom_Some[OF this]
  show "\<exists>i<length els. e = els ! i \<and> isHit e x y
          \<and> (\<forall>j. i < j \<and> j < length els \<longrightarrow> \<not> isHit (els ! j) x y)"
    by blast
qed

theorem getElementAtPosition_topmost_witness:
  "getElementAtPosition
     [Player ''a'' 0 0 8 ''#ef4444'', Player ''b'' 0 5 8 ''#3b82f6'',
      Line ''c'' 0 100 200 100 ''#000000''] 0 0
     = Some (Player ''b'' 0 5 8 ''#3b82f6'')
   \<and> find (\<lambda>e. isHit e 0 0)
        (rev [Player ''a'' 0 0 8 ''#ef4444'', Player ''b'' 0 5 8 ''#3b82f6'',
              Line ''c'' 0 100 200 100 ''#000000''])
     = Some (Player ''b'' 0 5 8 ''#3b82f6'')
   \<and> isHit (Player ''a'' 0 0 8 ''#ef4444'') 0 0
   \<and> \<not> isHit (Line ''c'' 0 100 200 100 ''#000000'') 0 0"
  using getElementAtPosition_topmost
    [of "[Player ''a'' 0 0 8 ''#ef4444'', Player ''b'' 0 5 8 ''#3b82f6'',
          Line ''c'' 0 100 200 100 ''#000000'']" 0 0]
  by (simp add: distance_def pointToLineDistance_def js_div_def threshold_def)

subsection \<open>The distance to a segment\<close>

lemma pointToLineDistance_total: "\<exists>d. pointToLineDistance p s e = Inr d"
  by (auto simp: pointToLineDistance_def js_div_def Let_def)

lemma pointToLineDistance_clamped:
  assumes nz: "(px e - px s) * (px e - px s) + (py e - py s) * (py e - py s) \<noteq> 0"
    and param: "param = ((px p - px s) * (px e - px s) + (py p - py s) * (py e - py s))
                    / ((px e - px s) * (px e - px s) + (py e - py s) * (py e - py s))"
    and u: "u = (if param < 0 then 0 else if param > 1 then 1 else param)"
  shows "pointToLineDistance p s e = Inr (distance p (segmentPoint s e u))"
  using nz unfolding param u
  by (simp add: pointToLineDistance_def Let_def js_div_def distance_def segmentPoint_def
      power2_eq_square)

lemma pointToLineDistance_point: "pointToLineDistance p s s = Inr (distance p s)"
  by (simp add: pointToLineDistance_def distance_def power2_eq_square Let_def)

lemma pointToLineDistance_attained:
  "\<exists>t. 0 \<le> t \<and> t \<le> 1 \<and> pointToLineDistance p s e = Inr (distance p (segmentPoint s e t))"
proof (cases "(px e - px s) * (px e - px s) + (py e - py s) * (py e - py s) = 0")
  case True
  then have "pointToLineDistance p s e = Inr (distance p (segmentPoint s e 0))"
    by (simp add: pointToLineDistance_def distance_def segmentPoint_def Let_def power2_eq_square)
  then show ?thesis by (intro exI[of _ 0]) simp
next
  case False
  define param where
    "param = ((px p - px s) * (px e - px s) + (py p - py s) * (py e - py s))
               / ((px e - px s) * (px e - px s) + (py e - py s) * (py e - py s))"
  define u where "u = (if param < 0 then 0 else if param > 1 then 1 else param)"
  have "pointToLineDistance p s e = Inr (distance p (segmentPoint s e u))"
    by (rule pointToLineDistance_clamped[OF False param_def u_def])
  moreover have "0 \<le> u" "u \<le> 1" by (auto simp: u_def)
  ultimately show ?thesis by blast
qed

text \<open>
  The squared distance along the segment is a quadratic in the parameter; the clamped
  projection parameter minimises it on \<open>[0, 1]\<close>.
\<close>

lemma clamped_projection_minimal:
  fixes A B C D t u param :: real
  assumes t: "0 \<le> t" "t \<le> 1"
    and param: "param = (A * C + B * D) / (C * C + D * D)"
    and u: "u = (if param < 0 then 0 else if param > 1 then 1 else param)"
    and nz: "C * C + D * D \<noteq> 0"
  shows "(A - u * C) * (A - u * C) + (B - u * D) * (B - u * D)
       \<le> (A - t * C) * (A - t * C) + (B - t * D) * (B - t * D)"
proof -
  define dot where "dot = A * C + B * D"
  define L where "L = C * C + D * D"
  have Lpos: "0 < L" using nz unfolding L_def
    by (metis add_nonneg_nonneg less_eq_real_def zero_le_square)
  have dot: "dot = param * L" using Lpos param by (simp add: dot_def L_def)
  have f: "(A - r * C) * (A - r * C) + (B - r * D) * (B - r * D)
        = (A * A + B * B) - 2 * r * dot + r * r * L" for r
    unfolding dot_def L_def by (simp add: algebra_simps)
  have "- 2 * u * dot + u * u * L \<le> - 2 * t * dot + t * t * L"
  proof (cases "param < 0")
    case True
    then have "u = 0" using u by simp
    moreover have "0 \<le> t * ((- param) * L)" using True t Lpos
      by (intro mult_nonneg_nonneg) auto
    moreover have "0 \<le> t * t * L" using Lpos by simp
    ultimately show ?thesis unfolding dot by (simp add: algebra_simps)
  next
    case False
    show ?thesis
    proof (cases "param > 1")
      case True
      then have u1: "u = 1" using u by simp
      have "0 \<le> ((1 - t) * ((param - 1) + (param - t))) * L"
      proof (intro mult_nonneg_nonneg)
        show "0 \<le> 1 - t" using t by simp
        show "0 \<le> param - 1 + (param - t)" using True t by simp
        show "0 \<le> L" using Lpos by simp
      qed
      then show ?thesis unfolding u1 dot by (simp add: algebra_simps)
    next
      case inside: False
      then have uq: "u = param" using u False by simp
      have "- 2 * t * dot + t * t * L - (- 2 * u * dot + u * u * L) = L * ((t - u) * (t - u))"
        unfolding dot uq by (simp add: algebra_simps)
      moreover have "0 \<le> L * ((t - u) * (t - u))" using Lpos by simp
      ultimately show ?thesis by linarith
    qed
  qed
  then show ?thesis unfolding f by simp
qed

lemma pointToLineDistance_lower:
  assumes t: "0 \<le> t" "t \<le> 1" and d: "pointToLineDistance p s e = Inr d"
  shows "d \<le> distance p (segmentPoint s e t)"
proof -
  define A where "A = px p - px s"
  define B where "B = py p - py s"
  define C where "C = px e - px s"
  define D where "D = py e - py s"
  have seg: "distance p (segmentPoint s e r)
      = sqrt ((A - r * C) * (A - r * C) + (B - r * D) * (B - r * D))" for r
    by (simp add: distance_def segmentPoint_def power2_eq_square A_def B_def C_def D_def
        algebra_simps)
  show ?thesis
  proof (cases "C * C + D * D = 0")
    case True
    then have "C = 0" "D = 0" by (auto simp: sum_squares_eq_zero_iff)
    moreover from True d have "d = sqrt (A * A + B * B)"
      by (auto simp: pointToLineDistance_def Let_def A_def B_def C_def D_def)
    ultimately show ?thesis by (simp add: seg)
  next
    case False
    define param where "param = (A * C + B * D) / (C * C + D * D)"
    define u where "u = (if param < 0 then 0 else if param > 1 then 1 else param)"
    have "pointToLineDistance p s e = Inr (distance p (segmentPoint s e u))"
      by (rule pointToLineDistance_clamped[OF _ _ u_def])
         (use False in \<open>simp_all add: param_def A_def B_def C_def D_def\<close>)
    with d have "d = distance p (segmentPoint s e u)" by simp
    moreover have "(A - u * C) * (A - u * C) + (B - u * D) * (B - u * D)
       \<le> (A - t * C) * (A - t * C) + (B - t * D) * (B - t * D)"
      by (rule clamped_projection_minimal[OF t param_def u_def False])
    ultimately show ?thesis by (simp add: seg)
  qed
qed

lemma line_hit_iff_segment_near:
  "isHit (Line i sx sy ex ey c) x y
     = (\<exists>t. 0 \<le> t \<and> t \<le> 1
          \<and> distance (Point x y) (segmentPoint (Point sx sy) (Point ex ey) t) < 10)"
proof -
  obtain d where d: "pointToLineDistance (Point x y) (Point sx sy) (Point ex ey) = Inr d"
    using pointToLineDistance_total by blast
  obtain t0 where t0: "0 \<le> t0" "t0 \<le> 1"
    "d = distance (Point x y) (segmentPoint (Point sx sy) (Point ex ey) t0)"
    using pointToLineDistance_attained[of "Point x y" "Point sx sy" "Point ex ey"] d by auto
  have hit: "isHit (Line i sx sy ex ey c) x y = (d < 10)"
    by (simp add: d threshold_def)
  show ?thesis
  proof
    assume "isHit (Line i sx sy ex ey c) x y"
    with hit t0 show "\<exists>t. 0 \<le> t \<and> t \<le> 1
          \<and> distance (Point x y) (segmentPoint (Point sx sy) (Point ex ey) t) < 10"
      by auto
  next
    assume "\<exists>t. 0 \<le> t \<and> t \<le> 1
          \<and> distance (Point x y) (segmentPoint (Point sx sy) (Point ex ey) t) < 10"
    then obtain t where t: "0 \<le> t" "t \<le> 1"
      "distance (Point x y) (segmentPoint (Point sx sy) (Point ex ey) t) < 10" by blast
    from pointToLineDistance_lower[OF t(1,2) d] t(3) have "d < 10" by linarith
    with hit show "isHit (Line i sx sy ex ey c) x y" by simp
  qed
qed

text \<open>
  \<^bold>\<open>C5.\<close> A line element is hit at \<open>(x, y)\<close> exactly when the distance computed by
  \<open>pointToLineDistance\<close> from \<open>(x, y)\<close> to its segment is strictly less than 10; that
  distance is the distance to the segment, so the line is hit exactly when some point of
  the segment is closer than 10. For the line from \<open>(0, 0)\<close> to \<open>(50, 0)\<close>, the point
  \<open>(25, 5)\<close> is at distance 5 and is a hit, the point \<open>(25, 20)\<close> is not a hit.
\<close>

theorem isHit_line:
  "isHit (Line i sx sy ex ey c) x y
     = (\<exists>d. pointToLineDistance (Point x y) (Point sx sy) (Point ex ey) = Inr d \<and> d < 10)
   \<and> isHit (Line i sx sy ex ey c) x y
     = (\<exists>t. 0 \<le> t \<and> t \<le> 1
          \<and> distance (Point x y) (segmentPoint (Point sx sy) (Point ex ey) t) < 10)
   \<and> pointToLineDistance (Point 25 5) (Point 0 0) (Point 50 0) = Inr 5
   \<and> isHit (Line i 0 0 50 0 c) 25 5
   \<and> \<not> isHit (Line i 0 0 50 0 c) 25 20"
proof (intro conjI)
  obtain d where d: "pointToLineDistance (Point x y) (Point sx sy) (Point ex ey) = Inr d"
    using pointToLineDistance_total by blast
  show "isHit (Line i sx sy ex ey c) x y
     = (\<exists>d. pointToLineDistance (Point x y) (Point sx sy) (Point ex ey) = Inr d \<and> d < 10)"
    by (simp add: d threshold_def)
  show "isHit (Line i sx sy ex ey c) x y
     = (\<exists>t. 0 \<le> t \<and> t \<le> 1
          \<and> distance (Point x y) (segmentPoint (Point sx sy) (Point ex ey) t) < 10)"
    by (rule line_hit_iff_segment_near)
  show "pointToLineDistance (Point 25 5) (Point 0 0) (Point 50 0) = Inr 5"
    by (simp add: pointToLineDistance_def js_div_def)
  show "isHit (Line i 0 0 50 0 c) 25 5"
    by (simp add: pointToLineDistance_def js_div_def threshold_def)
  show "\<not> isHit (Line i 0 0 50 0 c) 25 20"
    by (simp add: pointToLineDistance_def js_div_def threshold_def)
qed

text \<open>
  \<^bold>\<open>C7.\<close> On a degenerate segment, whose end points are equal, \<open>pointToLineDistance\<close>
  is the distance to that point, for every point \<open>p\<close>; and no call of
  \<open>pointToLineDistance\<close> divides by zero.
\<close>

theorem pointToLineDistance_degenerate:
  "pointToLineDistance p s s = Inr (distance p s)
   \<and> pointToLineDistance p s e \<noteq> Inl DivisionByZero"
  using pointToLineDistance_total[of p s e] by (auto simp: pointToLineDistance_point)

section \<open>Zones and the field renderer\<close>

text \<open>
  \<^bold>\<open>C6.\<close> A zone is hit at \<open>(x, y)\<close> exactly when the distance from \<open>(x, y)\<close> to its
  start point is at most the effective radius, the larger of 10 and the distance between
  its start and end points; \<open>drawElement\<close> draws the zone's arc around the start point
  with the same radius. For the zone from \<open>(0, 0)\<close> to \<open>(0, 20)\<close> the effective radius
  is 20, the point \<open>(0, 19)\<close> is a hit and the point \<open>(0, 25)\<close> is not.
\<close>

theorem isHit_zone:
  "isHit (Circle i sx sy ex ey c) x y
     = (distance (Point x y) (Point sx sy) \<le> max (distance (Point sx sy) (Point ex ey)) 10)
   \<and> (\<exists>rest. drawElement sel (Circle i sx sy ex ey c) ctx =
         Inr (ctx @ [SetStrokeStyle c, SetLineWidth 3, SetLineCap ''round'',
                     SetLineJoin ''round'', BeginPath,
                     Arc sx sy (max (distance (Point sx sy) (Point ex ey)) 10) 0 (pi * 2)]
                  @ rest))
   \<and> max (distance (Point 0 0) (Point 0 20)) 10 = 20
   \<and> isHit (Circle i 0 0 0 20 c) 0 19
   \<and> \<not> isHit (Circle i 0 0 0 20 c) 0 25"
proof (intro conjI)
  show "isHit (Circle i sx sy ex ey c) x y
     = (distance (Point x y) (Point sx sy) \<le> max (distance (Point sx sy) (Point ex ey)) 10)"
    by (simp add: Let_def)
  show "\<exists>rest. drawElement sel (Circle i sx sy ex ey c) ctx =
         Inr (ctx @ [SetStrokeStyle c, SetLineWidth 3, SetLineCap ''round'',
                     SetLineJoin ''round'', BeginPath,
                     Arc sx sy (max (distance (Point sx sy) (Point ex ey)) 10) 0 (pi * 2)]
                  @ rest)"
    by (simp add: Let_def selectionStroke_def emit_def arc_def)
  show "max (distance (Point 0 0) (Point 0 20)) 10 = 20"
    by (simp add: distance_def)
  show "isHit (Circle i 0 0 0 20 c) 0 19"
    by (simp add: distance_def)
  show "\<not> isHit (Circle i 0 0 0 20 c) 0 25"
    by (simp add: distance_def)
qed

text \<open>
  \<^bold>\<open>C8.\<close> When the canvas size minus the padding of 30 on both sides is not positive in
  one of the two dimensions, \<open>drawField\<close> paints the background fill and nothing else: it
  sets the fill style and fills the canvas rectangle, draws no field marking, throws
  nothing and divides by nothing.
\<close>

theorem drawField_small_canvas:
  assumes "width - 30 * 2 \<le> 0 \<or> height - 30 * 2 \<le> 0"
  shows "drawField vm width height ctx
           = Inr (ctx @ [SetFillStyle ''#ffffff'', FillRect 0 0 width height])"
  using assms by (auto simp: drawField_def FIELD_COLOR_def emit_def)

theorem drawField_small_canvas_witness:
  "(60::real) - 30 * 2 \<le> 0
   \<and> drawField FullView 60 600 [] = Inr [SetFillStyle ''#ffffff'', FillRect 0 0 60 600]
   \<and> drawField HalfView 800 0 [] = Inr [SetFillStyle ''#ffffff'', FillRect 0 0 800 0]"
  using drawField_small_canvas[of 60 600 FullView "[]"]
    drawField_small_canvas[of 800 0 HalfView "[]"]
  by simp

lemma fieldLayout_1000_600:
  "fieldLayout FullView 1000 600 = Inr (30, 480 / 11, 940, 5640 / 11)"
  by (simp add: fieldLayout_def js_div_def Let_def)

lemma drawField_1000_600_rects:
  "\<exists>cmds. drawField FullView 1000 600 [] = Inr cmds
       \<and> strokeRects cmds = [(30, 480 / 11, 940, 5640 / 11)]"
  by (simp add: drawField_def fieldLayout_1000_600 drawFullField_def Let_def strokeRects_def
      emit_def arc_def)

text \<open>
  \<^bold>\<open>C9 as stated fails.\<close> On a canvas of 1000 by 600 the padding of the outer boundary
  is not equal on every side: left and right it is 30, above and below it is \<open>480/11\<close>.
  The list below holds the left, right, top and bottom padding of each stroked rectangle.
\<close>

theorem drawField_full_1000_600_paddings_differ:
  "(case drawField FullView 1000 600 [] of
      Inl f \<Rightarrow> []
    | Inr cmds \<Rightarrow>
        map (\<lambda>(x, y, w, h). (x, 1000 - (x + w), y, 600 - (y + h))) (strokeRects cmds))
     = [(30, 30, 480 / 11, 480 / 11)]
   \<and> (30 :: real) \<noteq> 480 / 11"
proof -
  obtain cmds where cmds: "drawField FullView 1000 600 [] = Inr cmds"
    "strokeRects cmds = [(30, 480 / 11, 940, 5640 / 11)]"
    using drawField_1000_600_rects by blast
  show ?thesis by (simp add: cmds)
qed

text \<open>
  \<^bold>\<open>C9.\<close> The full-field render on a canvas of 1000 by 600 strokes one rectangle, the
  outer boundary of the field, at \<open>x = 30\<close>, \<open>y = 480/11\<close> with width 940 and height
  \<open>5640/11\<close>. It is centred, with equal padding on opposite sides: 30 left and right,
  \<open>480/11\<close> above and below, so at least 30 on every side; and width to height is
  110 to 60.
\<close>

theorem drawField_full_1000_600:
  "\<exists>cmds x y w h.
     drawField FullView 1000 600 [] = Inr cmds
     \<and> strokeRects cmds = [(x, y, w, h)]
     \<and> x = 30 \<and> y = 480 / 11 \<and> w = 940 \<and> h = 5640 / 11
     \<and> x = 1000 - (x + w)
     \<and> y = 600 - (y + h)
     \<and> 30 \<le> x \<and> 30 \<le> 1000 - (x + w) \<and> 30 \<le> y \<and> 30 \<le> 600 - (y + h)
     \<and> w / h = 110 / 60"
proof -
  obtain cmds where cmds: "drawField FullView 1000 600 [] = Inr cmds"
    "strokeRects cmds = [(30, 480 / 11, 940, 5640 / 11)]"
    using drawField_1000_600_rects by blast
  show ?thesis
    apply (rule exI[of _ cmds])
    apply (rule exI[of _ 30])
    apply (rule exI[of _ "480 / 11"])
    apply (rule exI[of _ 940])
    apply (rule exI[of _ "5640 / 11"])
    apply (simp add: cmds)
    done
qed

text \<open>
  On every canvas the renderer returns a drawing: beyond the safety check both canvas
  dimensions exceed the padding, so no divisor is zero, and every radius passed to
  \<open>arc\<close> is a maximum with 0.
\<close>

lemma fieldLayout_total:
  assumes "60 < width" "60 < height"
  shows "case fieldLayout vm width height of Inl f \<Rightarrow> False | Inr (x, y, w, h) \<Rightarrow> 0 < w"
  using assms by (auto simp: fieldLayout_def js_div_def Let_def)

lemma drawField_never_faults: "\<exists>cmds. drawField vm width height ctx = Inr cmds"
proof (cases "width \<le> 60 \<or> height \<le> 60")
  case True
  then show ?thesis by (auto simp: drawField_def emit_def)
next
  case False
  then obtain x y w h where l: "fieldLayout vm width height = Inr (x, y, w, h)" "0 < w"
    using fieldLayout_total[of width height vm] by (auto split: sum.splits)
  with False show ?thesis
    by (cases vm) (simp_all add: drawField_def emit_def arc_def drawFullField_def drawHalfField_def Let_def)
qed

section \<open>Pointer events\<close>

text \<open>
  \<^bold>\<open>C3.\<close> Pointer down with the interact tool. When the topmost hit element is already
  selected, the selection is unchanged and a drag begins, anchored at the pointer. When
  the hit element is not selected, the selection becomes exactly its id and a drag
  begins. When nothing is hit, the selection is cleared and a selection rectangle begins
  at the pointer. The elements are untouched.
\<close>

theorem handleStart_interact:
  assumes "tool s = ToolInteract"
  shows "(\<forall>hit. getElementAtPosition (elements s) x y = Some hit
                \<and> eid hit \<in> set (selectedElementIds s) \<longrightarrow>
            selectedElementIds (handleStart s x y i) = selectedElementIds s
          \<and> dragLastPos (handleStart s x y i) = Some (Point x y)
          \<and> selectionBox (handleStart s x y i) = None
          \<and> isDrawing (handleStart s x y i))
       \<and> (\<forall>hit. getElementAtPosition (elements s) x y = Some hit
                \<and> eid hit \<notin> set (selectedElementIds s) \<longrightarrow>
            selectedElementIds (handleStart s x y i) = [eid hit]
          \<and> dragLastPos (handleStart s x y i) = Some (Point x y)
          \<and> selectionBox (handleStart s x y i) = None
          \<and> isDrawing (handleStart s x y i))
       \<and> (getElementAtPosition (elements s) x y = None \<longrightarrow>
            selectedElementIds (handleStart s x y i) = []
          \<and> selectionBox (handleStart s x y i)
              = Some \<lparr> startX = x, startY = y, currentX = x, currentY = y \<rparr>
          \<and> dragLastPos (handleStart s x y i) = None
          \<and> isDrawing (handleStart s x y i))
       \<and> elements (handleStart s x y i) = elements s"
  using assms by (auto simp: handleStart_def Let_def split: option.splits)

theorem handleStart_interact_witness:
  "selectedElementIds (handleStart
      (initial\<lparr> tool := ToolInteract,
         elements := [Player ''a'' 0 0 8 ''#ef4444'', Player ''b'' 0 100 8 ''#ef4444''],
         selectedElementIds := [''a'', ''b''] \<rparr>) 0 0 ''n'') = [''a'', ''b'']
   \<and> dragLastPos (handleStart
      (initial\<lparr> tool := ToolInteract,
         elements := [Player ''a'' 0 0 8 ''#ef4444'', Player ''b'' 0 100 8 ''#ef4444''],
         selectedElementIds := [''a'', ''b''] \<rparr>) 0 0 ''n'') = Some (Point 0 0)
   \<and> selectedElementIds (handleStart
      (initial\<lparr> tool := ToolInteract,
         elements := [Player ''a'' 0 0 8 ''#ef4444'', Player ''b'' 0 100 8 ''#ef4444''],
         selectedElementIds := [''b''] \<rparr>) 0 0 ''n'') = [''a'']
   \<and> selectedElementIds (handleStart
      (initial\<lparr> tool := ToolInteract,
         elements := [Player ''a'' 0 0 8 ''#ef4444'', Player ''b'' 0 100 8 ''#ef4444''],
         selectedElementIds := [''a'', ''b''] \<rparr>) 0 50 ''n'') = []
   \<and> selectionBox (handleStart
      (initial\<lparr> tool := ToolInteract,
         elements := [Player ''a'' 0 0 8 ''#ef4444'', Player ''b'' 0 100 8 ''#ef4444''],
         selectedElementIds := [''a'', ''b''] \<rparr>) 0 50 ''n'')
       = Some \<lparr> startX = 0, startY = 50, currentX = 0, currentY = 50 \<rparr>"
  using
    handleStart_interact[of "initial\<lparr> tool := ToolInteract,
         elements := [Player ''a'' 0 0 8 ''#ef4444'', Player ''b'' 0 100 8 ''#ef4444''],
         selectedElementIds := [''a'', ''b''] \<rparr>" 0 0 "''n''"]
    handleStart_interact[of "initial\<lparr> tool := ToolInteract,
         elements := [Player ''a'' 0 0 8 ''#ef4444'', Player ''b'' 0 100 8 ''#ef4444''],
         selectedElementIds := [''b''] \<rparr>" 0 0 "''n''"]
    handleStart_interact[of "initial\<lparr> tool := ToolInteract,
         elements := [Player ''a'' 0 0 8 ''#ef4444'', Player ''b'' 0 100 8 ''#ef4444''],
         selectedElementIds := [''a'', ''b''] \<rparr>" 0 50 "''n''"]
  by (simp add: initial_def getElementAtPosition_def distance_def)

text \<open>
  \<^bold>\<open>C10.\<close> An erase action, pointer down with the eraser or pointer move with the
  eraser while the pointer is down, leaves the sequence with the entries bearing the hit
  element's id filtered out and all other entries as they were, in their order; when
  nothing is hit the sequence is unchanged. A pointer move while the pointer is up does
  nothing.
\<close>

theorem erase_elements:
  assumes "tool s = ToolEraser"
  shows "elements (handleStart s x y i) =
           (case getElementAtPosition (elements s) x y of
              Some hit \<Rightarrow> filter (\<lambda>el. eid el \<noteq> eid hit) (elements s)
            | None \<Rightarrow> elements s)
       \<and> (isDrawing s \<longrightarrow> (\<exists>s'. handleMove s x y = Inr s' \<and> elements s' =
           (case getElementAtPosition (elements s) x y of
              Some hit \<Rightarrow> filter (\<lambda>el. eid el \<noteq> eid hit) (elements s)
            | None \<Rightarrow> elements s)))
       \<and> (\<not> isDrawing s \<longrightarrow> handleMove s x y = Inr s)"
  using assms by (auto simp: handleStart_def handleMove_def Let_def split: option.splits)

theorem erase_elements_witness:
  "elements (handleStart
      (initial\<lparr> tool := ToolEraser,
         elements := [Player ''a'' 0 0 8 ''#ef4444'', Line ''b'' 0 100 50 100 ''#000000'',
                      Player ''c'' 0 5 8 ''#3b82f6''] \<rparr>) 0 0 ''n'')
     = [Player ''a'' 0 0 8 ''#ef4444'', Line ''b'' 0 100 50 100 ''#000000'']
   \<and> (\<exists>s'. handleMove
      (initial\<lparr> tool := ToolEraser, isDrawing := True,
         elements := [Player ''a'' 0 0 8 ''#ef4444'', Line ''b'' 0 100 50 100 ''#000000'',
                      Player ''c'' 0 5 8 ''#3b82f6''] \<rparr>) 0 100 = Inr s'
        \<and> elements s' = [Player ''a'' 0 0 8 ''#ef4444'', Player ''c'' 0 5 8 ''#3b82f6''])"
  using
    erase_elements[of "initial\<lparr> tool := ToolEraser,
         elements := [Player ''a'' 0 0 8 ''#ef4444'', Line ''b'' 0 100 50 100 ''#000000'',
                      Player ''c'' 0 5 8 ''#3b82f6''] \<rparr>" 0 0 "''n''"]
    erase_elements[of "initial\<lparr> tool := ToolEraser, isDrawing := True,
         elements := [Player ''a'' 0 0 8 ''#ef4444'', Line ''b'' 0 100 50 100 ''#000000'',
                      Player ''c'' 0 5 8 ''#3b82f6''] \<rparr>" 0 100 "''n''"]
  by (simp add: initial_def getElementAtPosition_def distance_def pointToLineDistance_def
      js_div_def threshold_def)

section \<open>Group drag\<close>

lemma eid_translate [simp]: "eid (translate dx dy el) = eid el"
  by (cases el) auto

lemma eid_dragElement [simp]: "eid (dragElement sel dx dy el) = eid el"
  by (simp add: dragElement_def)

lemma translate_inverse: "translate (- dx) (- dy) (translate dx dy el) = el"
  by (cases el) (auto simp: comp_def intro: map_idI)

lemma dragElement_inverse: "dragElement sel (- dx) (- dy) (dragElement sel dx dy el) = el"
  by (simp add: dragElement_def translate_inverse)

text \<open>
  \<^bold>\<open>C2.\<close> Group drag is translation-rigid. While a drag is under way with the
  interact tool, anchored at \<open>(x, y)\<close>, a move by \<open>(dx, dy)\<close> translates every
  selected element (marker centre, both end points of a line or zone, every point of a
  freehand path) by \<open>(dx, dy)\<close>, and the move by \<open>(-dx, -dy)\<close> that follows restores
  the whole sequence, so every selected element has its original geometry again. Over
  the real numbers the values are restored exactly.
\<close>

theorem group_drag_rigid:
  assumes "tool s = ToolInteract" and "isDrawing s" and "selectionBox s = None"
    and "dragLastPos s = Some (Point x y)" and "selectedElementIds s \<noteq> []"
  shows "\<exists>s1 s2. handleMove s (x + dx) (y + dy) = Inr s1
           \<and> elements s1 = map (dragElement (selectedElementIds s) dx dy) (elements s)
           \<and> handleMove s1 x y = Inr s2
           \<and> elements s2 = map (dragElement (selectedElementIds s) (- dx) (- dy)) (elements s1)
           \<and> elements s2 = elements s"
proof -
  define s1 where "s1 = s\<lparr> elements := map (dragElement (selectedElementIds s) dx dy) (elements s),
                            dragLastPos := Some (Point (x + dx) (y + dy)) \<rparr>"
  define s2 where "s2 = s1\<lparr> elements := map (dragElement (selectedElementIds s) (- dx) (- dy)) (elements s1),
                            dragLastPos := Some (Point x y) \<rparr>"
  have 1: "handleMove s (x + dx) (y + dy) = Inr s1"
    using assms by (simp add: handleMove_def s1_def)
  have 2: "handleMove s1 x y = Inr s2"
    using assms by (simp add: handleMove_def s1_def s2_def)
  have 3: "elements s2 = elements s"
    by (simp add: s2_def s1_def comp_def dragElement_inverse)
  show ?thesis using 1 2 3 by (auto simp: s1_def s2_def)
qed

theorem group_drag_rigid_witness:
  "\<exists>s1 s2.
     handleMove
       (initial\<lparr> tool := ToolInteract, isDrawing := True,
          elements := [Player ''a'' 1 2 8 ''#ef4444'', Line ''b'' 0 0 5 5 ''#000000'',
                       Circle ''c'' 1 1 2 2 ''#3b82f6'',
                       Freehand ''d'' [Point 0 0, Point 1 1] ''#eab308'',
                       Player ''e'' 9 9 8 ''#ef4444''],
          selectedElementIds := [''a'', ''b'', ''c'', ''d''],
          dragLastPos := Some (Point 10 20) \<rparr>) 13 24 = Inr s1
     \<and> elements s1 = [Player ''a'' 4 6 8 ''#ef4444'', Line ''b'' 3 4 8 9 ''#000000'',
                       Circle ''c'' 4 5 5 6 ''#3b82f6'',
                       Freehand ''d'' [Point 3 4, Point 4 5] ''#eab308'',
                       Player ''e'' 9 9 8 ''#ef4444'']
     \<and> handleMove s1 10 20 = Inr s2
     \<and> elements s2 = [Player ''a'' 1 2 8 ''#ef4444'', Line ''b'' 0 0 5 5 ''#000000'',
                       Circle ''c'' 1 1 2 2 ''#3b82f6'',
                       Freehand ''d'' [Point 0 0, Point 1 1] ''#eab308'',
                       Player ''e'' 9 9 8 ''#ef4444'']"
  using group_drag_rigid
    [of "initial\<lparr> tool := ToolInteract, isDrawing := True,
          elements := [Player ''a'' 1 2 8 ''#ef4444'', Line ''b'' 0 0 5 5 ''#000000'',
                       Circle ''c'' 1 1 2 2 ''#3b82f6'',
                       Freehand ''d'' [Point 0 0, Point 1 1] ''#eab308'',
                       Player ''e'' 9 9 8 ''#ef4444''],
          selectedElementIds := [''a'', ''b'', ''c'', ''d''],
          dragLastPos := Some (Point 10 20) \<rparr>" 10 20 3 4]
  by (simp add: initial_def dragElement_def) blast

section \<open>The selection set and the sequence\<close>

lemma handleStart_valid:
  assumes "selection_valid s" "tool s \<noteq> ToolEraser"
  shows "selection_valid (handleStart s x y i)"
  using assms
  by (cases "tool s")
     (auto simp: handleStart_def selection_valid_def Let_def
           dest: getElementAtPosition_mem split: option.splits)

lemma handleMove_valid:
  assumes "selection_valid s" "tool s \<noteq> ToolEraser" "handleMove s x y = Inr s'"
  shows "selection_valid s'"
  using assms
  by (auto simp: handleMove_def selection_valid_def Let_def image_image
           split: if_splits option.splits sum.splits)

lemma handleEnd_valid:
  assumes "selection_valid s"
  shows "selection_valid (handleEnd s)"
  using assms
  by (auto simp: handleEnd_def selection_valid_def Let_def split: option.splits)

lemma reachable_steps: "reachable s \<Longrightarrow> steps s evs = Inr s' \<Longrightarrow> reachable s'"
  by (induction evs arbitrary: s) (auto split: sum.splits intro: reachable_step)

lemma steps_undo:
  "steps initial [PointerDown 0 0 ''a'', SetTool ToolInteract, PointerDown 0 0 ''b'',
                  PointerUp, Undo]
   = Inr (initial\<lparr> tool := ToolInteract, selectedElementIds := [''a''] \<rparr>)"
  by (simp add: initial_def handleStart_def handleEnd_def handleUndo_def
      getElementAtPosition_def distance_def Let_def)

lemma steps_erase_down:
  "steps initial [PointerDown 0 0 ''a'', SetTool ToolInteract, PointerDown 0 0 ''b'',
                  PointerUp, SetTool ToolEraser, PointerDown 0 0 ''c'']
   = Inr (initial\<lparr> tool := ToolEraser, isDrawing := True, selectedElementIds := [''a''] \<rparr>)"
  by (simp add: initial_def handleStart_def handleEnd_def getElementAtPosition_def
      distance_def Let_def)

lemma steps_erase_move:
  "steps initial [PointerDown 0 0 ''a'', SetTool ToolInteract, PointerDown 0 0 ''b'',
                  PointerUp, SetTool ToolEraser, PointerDown 0 50 ''c'', PointerMove 0 0]
   = Inr (initial\<lparr> tool := ToolEraser, isDrawing := True, selectedElementIds := [''a''] \<rparr>)"
  by (simp add: initial_def handleStart_def handleEnd_def handleMove_def
      getElementAtPosition_def distance_def Let_def)

text \<open>
  \<^bold>\<open>C1 as stated fails.\<close> The invariant does not hold in every reachable state. Place a marker, select it with
  the interact tool and release; then undo, or erase it with the eraser on pointer down
  or on pointer move: the sequence is empty and the selection set still holds the id of
  the marker.
\<close>

theorem selection_invalid_after_removal:
  "reachable (initial\<lparr> tool := ToolInteract, selectedElementIds := [''a''] \<rparr>)
   \<and> \<not> selection_valid (initial\<lparr> tool := ToolInteract, selectedElementIds := [''a''] \<rparr>)
   \<and> steps initial [PointerDown 0 0 ''a'', SetTool ToolInteract, PointerDown 0 0 ''b'',
                     PointerUp, Undo]
       = Inr (initial\<lparr> tool := ToolInteract, selectedElementIds := [''a''] \<rparr>)
   \<and> reachable (initial\<lparr> tool := ToolEraser, isDrawing := True, selectedElementIds := [''a''] \<rparr>)
   \<and> \<not> selection_valid
         (initial\<lparr> tool := ToolEraser, isDrawing := True, selectedElementIds := [''a''] \<rparr>)
   \<and> steps initial [PointerDown 0 0 ''a'', SetTool ToolInteract, PointerDown 0 0 ''b'',
                     PointerUp, SetTool ToolEraser, PointerDown 0 0 ''c'']
       = Inr (initial\<lparr> tool := ToolEraser, isDrawing := True, selectedElementIds := [''a''] \<rparr>)
   \<and> steps initial [PointerDown 0 0 ''a'', SetTool ToolInteract, PointerDown 0 0 ''b'',
                     PointerUp, SetTool ToolEraser, PointerDown 0 50 ''c'', PointerMove 0 0]
       = Inr (initial\<lparr> tool := ToolEraser, isDrawing := True, selectedElementIds := [''a''] \<rparr>)"
proof (intro conjI)
  show "reachable (initial\<lparr> tool := ToolInteract, selectedElementIds := [''a''] \<rparr>)"
    by (rule reachable_steps[OF reachable_initial steps_undo])
  show "reachable (initial\<lparr> tool := ToolEraser, isDrawing := True, selectedElementIds := [''a''] \<rparr>)"
    by (rule reachable_steps[OF reachable_initial steps_erase_down])
  show "\<not> selection_valid (initial\<lparr> tool := ToolInteract, selectedElementIds := [''a''] \<rparr>)"
    by (simp add: selection_valid_def initial_def)
  show "\<not> selection_valid
         (initial\<lparr> tool := ToolEraser, isDrawing := True, selectedElementIds := [''a''] \<rparr>)"
    by (simp add: selection_valid_def initial_def)
qed (rule steps_undo steps_erase_down steps_erase_move)+

text \<open>
  \<^bold>\<open>C1.\<close> Every id in the selection set references an element of the sequence: this
  invariant is kept by every event other than undo and the erasing pointer events
  (placing a marker, drawing, pointer down, move and up with the interact tool, clearing
  the board, changing tool, view or colour). Undo and the erasing pointer events leave the
  selection set as it was.
\<close>

theorem selection_valid_step:
  assumes "step s ev = Inr s'"
  shows "if removesElement s ev then selectedElementIds s' = selectedElementIds s
         else (selection_valid s \<longrightarrow> selection_valid s')"
proof (cases ev)
  case (PointerDown x y i)
  with assms handleStart_valid[of s x y i] show ?thesis
    by (auto simp: handleStart_def Let_def split: option.splits)
next
  case (PointerMove x y)
  with assms handleMove_valid[of s x y s'] show ?thesis
    by (auto simp: handleMove_def split: option.splits if_splits)
next
  case PointerUp
  with assms handleEnd_valid[of s] show ?thesis by auto
next
  case Undo
  with assms show ?thesis by (auto simp: handleUndo_def)
qed (use assms in \<open>auto simp: selection_valid_def handleClearTrigger_def
       handleConfirmClear_def handleCancelClear_def\<close>)

theorem selection_valid_step_witness:
  "selection_valid (initial\<lparr> tool := ToolInteract,
       elements := [Player ''a'' 0 0 8 ''#ef4444'', Player ''b'' 0 100 8 ''#ef4444''],
       selectedElementIds := [''a''] \<rparr>)
   \<and> step (initial\<lparr> tool := ToolInteract,
       elements := [Player ''a'' 0 0 8 ''#ef4444'', Player ''b'' 0 100 8 ''#ef4444''],
       selectedElementIds := [''a''] \<rparr>) (PointerDown 0 100 ''n'')
     = Inr (initial\<lparr> tool := ToolInteract,
       elements := [Player ''a'' 0 0 8 ''#ef4444'', Player ''b'' 0 100 8 ''#ef4444''],
       isDrawing := True,
       selectedElementIds := [''b''], dragLastPos := Some (Point 0 100) \<rparr>)
   \<and> selection_valid (initial\<lparr> tool := ToolInteract,
       elements := [Player ''a'' 0 0 8 ''#ef4444'', Player ''b'' 0 100 8 ''#ef4444''],
       isDrawing := True,
       selectedElementIds := [''b''], dragLastPos := Some (Point 0 100) \<rparr>)
   \<and> selectedElementIds (handleUndo (initial\<lparr> tool := ToolInteract,
       elements := [Player ''a'' 0 0 8 ''#ef4444'', Player ''b'' 0 100 8 ''#ef4444''],
       selectedElementIds := [''b''] \<rparr>)) = [''b'']"
  using
    selection_valid_step[of "initial\<lparr> tool := ToolInteract,
       elements := [Player ''a'' 0 0 8 ''#ef4444'', Player ''b'' 0 100 8 ''#ef4444''],
       selectedElementIds := [''a''] \<rparr>" "PointerDown 0 100 ''n''"
       "initial\<lparr> tool := ToolInteract,
       elements := [Player ''a'' 0 0 8 ''#ef4444'', Player ''b'' 0 100 8 ''#ef4444''],
       isDrawing := True,
       selectedElementIds := [''b''], dragLastPos := Some (Point 0 100) \<rparr>"]
    selection_valid_step[of "initial\<lparr> tool := ToolInteract,
       elements := [Player ''a'' 0 0 8 ''#ef4444'', Player ''b'' 0 100 8 ''#ef4444''],
       selectedElementIds := [''b''] \<rparr>" Undo
       "handleUndo (initial\<lparr> tool := ToolInteract,
       elements := [Player ''a'' 0 0 8 ''#ef4444'', Player ''b'' 0 100 8 ''#ef4444''],
       selectedElementIds := [''b''] \<rparr>)"]
  by (simp add: initial_def selection_valid_def handleStart_def getElementAtPosition_def
      distance_def)

end
